theory Spec2Isabelle
  imports Main "HOL-Library.Word"
begin

section \<open>Policy conditions of kubernetes-nmstate\<close>

text \<open>
  A shallow embedding of
  \<^verbatim>\<open>pkg/controller/nodenetworkconfigurationpolicy/policyconditions/conditions.go\<close>.
  The file computes the Degraded and Available conditions of a
  NodeNetworkConfigurationPolicy from the number of ready nodes and the counts of its
  enactments, and writes them with a retry on version conflicts.
\<close>

subsection \<open>Integers and their decimal rendering\<close>

text \<open>
  Go's \<^verbatim>\<open>int\<close> on the 64-bit platforms the operator runs on: addition wraps, comparison
  is signed.
\<close>

type_synonym goint = "64 word"

text \<open>The verb \<^verbatim>\<open>%d\<close> of \<^verbatim>\<open>fmt.Sprintf\<close>: decimal digits, a minus sign for a negative value.\<close>

fun decimal :: "nat \<Rightarrow> string" where
  "decimal n =
     (if n < 10 then [''0123456789'' ! n]
      else decimal (n div 10) @ [''0123456789'' ! (n mod 10)])"

declare decimal.simps [simp del]

definition Sprintf_d :: "goint \<Rightarrow> string" where
  "Sprintf_d v =
     (if sint v < 0 then CHR ''-'' # decimal (nat (- sint v)) else decimal (nat (sint v)))"

subsection \<open>Conditions\<close>

text \<open>\<^verbatim>\<open>corev1.ConditionStatus\<close> with its three constants.\<close>

datatype ConditionStatus = ConditionTrue | ConditionFalse | ConditionUnknown

type_synonym ConditionType = string
type_synonym ConditionReason = string

subsection \<open>Nodes\<close>

text \<open>
  \<^verbatim>\<open>corev1.Node\<close> as far as \<^verbatim>\<open>Update\<close> reads it: the list \<^verbatim>\<open>node.Status.Conditions\<close>,
  each entry with its \<^verbatim>\<open>Type\<close> and \<^verbatim>\<open>Status\<close>. The list is a Go slice: nothing in the
  type keeps two entries from having the same type.
\<close>

type_synonym NodeConditionType = string

definition NodeReady :: NodeConditionType where
  "NodeReady = ''Ready''"

record NodeCondition =
  Type :: NodeConditionType
  Status :: ConditionStatus

record Node =
  NodeStatus_Conditions :: "NodeCondition list"

text \<open>The inner loop of lines 114 to 119, on the running count.\<close>

fun numberOfReadyNodes_conditions :: "NodeCondition list \<Rightarrow> goint \<Rightarrow> goint" where
  "numberOfReadyNodes_conditions [] numberOfReadyNodes = numberOfReadyNodes"
| "numberOfReadyNodes_conditions (condition # conditions) numberOfReadyNodes =
     numberOfReadyNodes_conditions conditions
       (if NodeCondition.Type condition = NodeReady
           \<and> NodeCondition.Status condition = ConditionTrue
        then numberOfReadyNodes + 1 else numberOfReadyNodes)"

text \<open>The outer loop of lines 113 to 120.\<close>

fun numberOfReadyNodes_items :: "Node list \<Rightarrow> goint \<Rightarrow> goint" where
  "numberOfReadyNodes_items [] numberOfReadyNodes = numberOfReadyNodes"
| "numberOfReadyNodes_items (node # nodes) numberOfReadyNodes =
     numberOfReadyNodes_items nodes
       (numberOfReadyNodes_conditions (NodeStatus_Conditions node) numberOfReadyNodes)"

text \<open>Lines 112 to 120 of \<^verbatim>\<open>Update\<close>: the value of \<^verbatim>\<open>numberOfReadyNodes\<close> after the loops.\<close>

definition Update_numberOfReadyNodes :: "Node list \<Rightarrow> goint" where
  "Update_numberOfReadyNodes nodes = numberOfReadyNodes_items nodes 0"

text \<open>
  The count in the words of the spec: a node is ready when the pair (Ready, True) is
  present among its conditions, and ReadyNodeCount is the number of ready nodes.
\<close>

definition spec_nodeReady :: "Node \<Rightarrow> bool" where
  "spec_nodeReady node =
     list_ex (\<lambda>c. NodeCondition.Type c = NodeReady \<and> NodeCondition.Status c = ConditionTrue)
       (NodeStatus_Conditions node)"

definition spec_ReadyNodeCount :: "Node list \<Rightarrow> nat" where
  "spec_ReadyNodeCount nodes = length (filter spec_nodeReady nodes)"

subsection \<open>Policy conditions\<close>

text \<open>
  Modelled from the spec: the declarations of package \<^verbatim>\<open>nmstatev1alpha1\<close> (the condition
  types, the condition reasons, \<^verbatim>\<open>Condition\<close>, \<^verbatim>\<open>ConditionList\<close> and its method
  \<^verbatim>\<open>Set\<close>) are not in this source file. The spec names the two condition types
  Available and Degraded, the four reasons by their strings, a condition as type,
  status, reason and message, and \<^verbatim>\<open>Set\<close> as an upsert keyed by type: an existing
  condition of that type is overwritten in place, otherwise the condition is appended.
\<close>

definition NodeNetworkConfigurationPolicyConditionAvailable :: ConditionType where
  "NodeNetworkConfigurationPolicyConditionAvailable = ''Available''"

definition NodeNetworkConfigurationPolicyConditionDegraded :: ConditionType where
  "NodeNetworkConfigurationPolicyConditionDegraded = ''Degraded''"

definition NodeNetworkConfigurationPolicyConditionConfigurationProgressing :: ConditionReason where
  "NodeNetworkConfigurationPolicyConditionConfigurationProgressing = ''ConfigurationProgressing''"

definition NodeNetworkConfigurationPolicyConditionSuccessfullyConfigured :: ConditionReason where
  "NodeNetworkConfigurationPolicyConditionSuccessfullyConfigured = ''SuccessfullyConfigured''"

definition NodeNetworkConfigurationPolicyConditionConfigurationNoMatchingNode :: ConditionReason where
  "NodeNetworkConfigurationPolicyConditionConfigurationNoMatchingNode = ''ConfigurationNoMatchingNode''"

definition NodeNetworkConfigurationPolicyConditionFailedToConfigure :: ConditionReason where
  "NodeNetworkConfigurationPolicyConditionFailedToConfigure = ''FailedToConfigure''"

record Condition =
  Type :: ConditionType
  Status :: ConditionStatus
  Reason :: ConditionReason
  Message :: string

type_synonym ConditionList = "Condition list"

fun ConditionList_Find :: "ConditionList \<Rightarrow> ConditionType \<Rightarrow> Condition option" where
  "ConditionList_Find [] conditionType = None"
| "ConditionList_Find (c # cs) conditionType =
     (if Type c = conditionType then Some c else ConditionList_Find cs conditionType)"

fun ConditionList_Set ::
  "ConditionList \<Rightarrow> ConditionType \<Rightarrow> ConditionStatus \<Rightarrow> ConditionReason \<Rightarrow> string \<Rightarrow> ConditionList"
where
  "ConditionList_Set [] conditionType status reason message =
     [\<lparr>Type = conditionType, Status = status, Reason = reason, Message = message\<rparr>]"
| "ConditionList_Set (c # cs) conditionType status reason message =
     (if Type c = conditionType
      then c\<lparr>Status := status, Reason := reason, Message := message\<rparr> # cs
      else c # ConditionList_Set cs conditionType status reason message)"

subsection \<open>The four setters\<close>

definition setPolicyProgressing :: "ConditionList \<Rightarrow> string \<Rightarrow> ConditionList" where
  "setPolicyProgressing conditions message =
     ConditionList_Set
       (ConditionList_Set conditions
          NodeNetworkConfigurationPolicyConditionDegraded
          ConditionUnknown
          NodeNetworkConfigurationPolicyConditionConfigurationProgressing
          '''')
       NodeNetworkConfigurationPolicyConditionAvailable
       ConditionUnknown
       NodeNetworkConfigurationPolicyConditionConfigurationProgressing
       message"

definition setPolicySuccess :: "ConditionList \<Rightarrow> string \<Rightarrow> ConditionList" where
  "setPolicySuccess conditions message =
     ConditionList_Set
       (ConditionList_Set conditions
          NodeNetworkConfigurationPolicyConditionDegraded
          ConditionFalse
          NodeNetworkConfigurationPolicyConditionSuccessfullyConfigured
          '''')
       NodeNetworkConfigurationPolicyConditionAvailable
       ConditionTrue
       NodeNetworkConfigurationPolicyConditionSuccessfullyConfigured
       message"

definition setPolicyNotMatching :: "ConditionList \<Rightarrow> string \<Rightarrow> ConditionList" where
  "setPolicyNotMatching conditions message =
     ConditionList_Set
       (ConditionList_Set conditions
          NodeNetworkConfigurationPolicyConditionDegraded
          ConditionFalse
          NodeNetworkConfigurationPolicyConditionConfigurationNoMatchingNode
          message)
       NodeNetworkConfigurationPolicyConditionAvailable
       ConditionTrue
       NodeNetworkConfigurationPolicyConditionConfigurationNoMatchingNode
       message"

definition setPolicyFailedToConfigure :: "ConditionList \<Rightarrow> string \<Rightarrow> ConditionList" where
  "setPolicyFailedToConfigure conditions message =
     ConditionList_Set
       (ConditionList_Set conditions
          NodeNetworkConfigurationPolicyConditionDegraded
          ConditionTrue
          NodeNetworkConfigurationPolicyConditionFailedToConfigure
          message)
       NodeNetworkConfigurationPolicyConditionAvailable
       ConditionFalse
       NodeNetworkConfigurationPolicyConditionFailedToConfigure
       ''''"

subsection \<open>The decision of \<^verbatim>\<open>Update\<close>\<close>

text \<open>
  The value of \<^verbatim>\<open>enactmentconditions.Count\<close>, read through its four methods
  \<^verbatim>\<open>Matching()\<close>, \<^verbatim>\<open>Available()\<close>, \<^verbatim>\<open>Failed()\<close> and \<^verbatim>\<open>NotMatching()\<close>.
\<close>

record EnactmentCounts =
  Matching :: goint
  Available :: goint
  Failed :: goint
  NotMatching :: goint

definition numberOfFinishedEnactments :: "EnactmentCounts \<Rightarrow> goint" where
  "numberOfFinishedEnactments enactmentsCount =
     Available enactmentsCount + Failed enactmentsCount + NotMatching enactmentsCount"

text \<open>
  Lines 125 to 141 of \<^verbatim>\<open>Update\<close>: the conditions of the policy after the branch on the
  counts. The log line in between has no effect on the result.
\<close>

definition Update_conditions :: "goint \<Rightarrow> EnactmentCounts \<Rightarrow> ConditionList \<Rightarrow> ConditionList" where
  "Update_conditions numberOfReadyNodes enactmentsCount conditions =
     (if numberOfFinishedEnactments enactmentsCount <s numberOfReadyNodes
      then setPolicyProgressing conditions
             (''Policy is progressing '' @ Sprintf_d (numberOfFinishedEnactments enactmentsCount)
                @ ''/'' @ Sprintf_d numberOfReadyNodes @ '' nodes finished'')
      else if Matching enactmentsCount = 0
      then setPolicyNotMatching conditions ''Policy does not match any node''
      else if 0 <s Failed enactmentsCount
      then setPolicyFailedToConfigure conditions
             (Sprintf_d (Failed enactmentsCount) @ ''/'' @ Sprintf_d (Matching enactmentsCount)
                @ '' nodes failed to configure'')
      else setPolicySuccess conditions
             (Sprintf_d (Available enactmentsCount) @ ''/'' @ Sprintf_d (Available enactmentsCount)
                @ '' nodes successfully configured''))"

subsection \<open>Errors\<close>

text \<open>
  Modelled from the spec: the errors of the client and \<^verbatim>\<open>errors.Wrap\<close> are library code
  outside this source file. The spec names the errors of the store (not found,
  conflict, other) and has a retrieval error wrapped with a static context string;
  \<open>Wrap\<close> is the value that \<^verbatim>\<open>errors.Wrap\<close> builds around its cause and that string.
\<close>

datatype error =
    ConflictError
  | NotFoundError
  | OtherError string
  | Wrap error string

text \<open>
  \<^verbatim>\<open>apierrors.IsConflict\<close> is library code as well. This file imports
  \<^verbatim>\<open>sigs.k8s.io/controller-runtime/pkg/runtime/log\<close> and writes the label filter as a
  \<^verbatim>\<open>client.MatchingLabels\<close> literal, which dates its libraries before the apimachinery
  release in which the classifier began to unwrap its argument. The classifier of these
  releases is a type switch on the error value it is given: the conflict error of the
  store is a conflict, and the value built by \<^verbatim>\<open>errors.Wrap\<close> is not a status error,
  whatever its cause is.
\<close>

fun IsConflict :: "error \<Rightarrow> bool" where
  "IsConflict ConflictError = True"
| "IsConflict (Wrap err message) = False"
| "IsConflict NotFoundError = False"
| "IsConflict (OtherError message) = False"

subsection \<open>The client\<close>

text \<open>
  The policy object as far as this file reads and writes it: \<^verbatim>\<open>policy.Name\<close> and
  \<^verbatim>\<open>policy.Status.Conditions\<close>. Everything else of the object is the extension of the
  record.
\<close>

record NodeNetworkConfigurationPolicy =
  Name :: string
  Status_Conditions :: ConditionList

type_synonym NamespacedName = "string \<times> string"

text \<open>
  \<^verbatim>\<open>client.Client\<close> is a Go interface. A value of it is a record of the four calls made
  here, each a function of the state of the world \<open>'w\<close> that returns its result and the
  world after the call. The world is not fixed: it stands for the store, for whatever
  other writers do to it between two calls, and for the passage of time. A call that
  returns an error is \<open>Inl\<close> (for \<^verbatim>\<open>Status().Update\<close>, \<open>Some\<close>).
  \<^verbatim>\<open>List\<close> is called with the label filter on the policy name for the enactments and with
  no filter for the nodes.
\<close>

record ('w, 'x, 'e) Client =
  Get :: "NamespacedName \<Rightarrow> 'w \<Rightarrow> (error + 'x NodeNetworkConfigurationPolicy_scheme) \<times> 'w"
  List_Enactments :: "string \<Rightarrow> 'w \<Rightarrow> (error + 'e list) \<times> 'w"
  List_Nodes :: "'w \<Rightarrow> (error + Node list) \<times> 'w"
  Status_Update :: "'x NodeNetworkConfigurationPolicy_scheme \<Rightarrow> 'w \<Rightarrow> error option \<times> 'w"

subsection \<open>Retry on conflict\<close>

text \<open>
  Modelled from the spec: \<^verbatim>\<open>retry.RetryOnConflict\<close> and \<^verbatim>\<open>retry.DefaultRetry\<close> are library
  code outside this source file. By the spec the executor runs the work closure, returns
  on success, returns any error that is not a version conflict at once, runs the whole
  closure again on a conflict, and after a bounded number of attempts returns the last
  conflict error. The bound is the parameter \<open>steps\<close>; the delay between two attempts is
  time and has no counterpart here, beyond the world that the next attempt finds.
\<close>

fun RetryOnConflict_loop ::
  "nat \<Rightarrow> ('w \<Rightarrow> error option \<times> 'w) \<Rightarrow> error option \<Rightarrow> 'w \<Rightarrow> error option \<times> 'w"
where
  "RetryOnConflict_loop 0 fn lastConflictErr w = (lastConflictErr, w)"
| "RetryOnConflict_loop (Suc steps) fn lastConflictErr w =
     (case fn w of
        (None, w') \<Rightarrow> (None, w')
      | (Some err, w') \<Rightarrow>
          if IsConflict err then RetryOnConflict_loop steps fn (Some err) w'
          else (Some err, w'))"

definition RetryOnConflict ::
  "nat \<Rightarrow> ('w \<Rightarrow> error option \<times> 'w) \<Rightarrow> 'w \<Rightarrow> error option \<times> 'w"
where
  "RetryOnConflict steps fn w = RetryOnConflict_loop steps fn None w"

subsection \<open>\<^verbatim>\<open>Update\<close> and \<^verbatim>\<open>Reset\<close>\<close>

text \<open>
  The closure that \<^verbatim>\<open>Update\<close> hands to the executor (lines 93 to 153).
  \<^verbatim>\<open>enactmentconditions.Count\<close> is not in this source file and is the parameter
  \<open>Count\<close>.
\<close>

definition Update_fn ::
  "('e list \<Rightarrow> EnactmentCounts) \<Rightarrow> ('w, 'x, 'e) Client \<Rightarrow> NamespacedName
     \<Rightarrow> 'w \<Rightarrow> error option \<times> 'w"
where
  "Update_fn Count cli policyKey w =
     (case Get cli policyKey w of
        (Inl err, w1) \<Rightarrow> (Some (Wrap err ''getting policy failed''), w1)
      | (Inr policy, w1) \<Rightarrow>
          (case List_Enactments cli (Name policy) w1 of
             (Inl err, w2) \<Rightarrow> (Some (Wrap err ''getting enactments failed''), w2)
           | (Inr enactments, w2) \<Rightarrow>
               (case List_Nodes cli w2 of
                  (Inl err, w3) \<Rightarrow> (Some (Wrap err ''getting nodes failed''), w3)
                | (Inr nodes, w3) \<Rightarrow>
                    Status_Update cli
                      (policy\<lparr>Status_Conditions :=
                         Update_conditions (Update_numberOfReadyNodes nodes) (Count enactments)
                           (Status_Conditions policy)\<rparr>)
                      w3)))"

definition Update ::
  "nat \<Rightarrow> ('e list \<Rightarrow> EnactmentCounts) \<Rightarrow> ('w, 'x, 'e) Client \<Rightarrow> NamespacedName
     \<Rightarrow> 'w \<Rightarrow> error option \<times> 'w"
where
  "Update steps Count cli policyKey w = RetryOnConflict steps (Update_fn Count cli policyKey) w"

text \<open>The closure of \<^verbatim>\<open>Reset\<close> (lines 158 to 175).\<close>

definition Reset_fn ::
  "('w, 'x, 'e) Client \<Rightarrow> NamespacedName \<Rightarrow> 'w \<Rightarrow> error option \<times> 'w"
where
  "Reset_fn cli policyKey w =
     (case Get cli policyKey w of
        (Inl err, w1) \<Rightarrow> (Some (Wrap err ''getting policy failed''), w1)
      | (Inr policy, w1) \<Rightarrow> Status_Update cli (policy\<lparr>Status_Conditions := []\<rparr>) w1)"

definition Reset ::
  "nat \<Rightarrow> ('w, 'x, 'e) Client \<Rightarrow> NamespacedName \<Rightarrow> 'w \<Rightarrow> error option \<times> 'w"
where
  "Reset steps cli policyKey w = RetryOnConflict steps (Reset_fn cli policyKey) w"

subsection \<open>Attempts of the executor\<close>

text \<open>The world in which attempt number \<open>k\<close> (from 0) starts when every attempt is run.\<close>

definition attempt_world :: "('w \<Rightarrow> error option \<times> 'w) \<Rightarrow> nat \<Rightarrow> 'w \<Rightarrow> 'w" where
  "attempt_world fn k w = ((\<lambda>v. snd (fn v)) ^^ k) w"

text \<open>An attempt ended in a version conflict.\<close>

definition conflicted :: "error option \<times> 'w \<Rightarrow> bool" where
  "conflicted r = (case fst r of None \<Rightarrow> False | Some err \<Rightarrow> IsConflict err)"

text \<open>A closure that also counts how often it has been run.\<close>

definition counted :: "('w \<Rightarrow> error option \<times> 'w) \<Rightarrow> 'w \<times> nat \<Rightarrow> error option \<times> ('w \<times> nat)" where
  "counted fn v = (case fn (fst v) of (r, w') \<Rightarrow> (r, (w', Suc (snd v))))"

subsection \<open>A scripted client for the examples\<close>

text \<open>
  A store that holds the conditions of one policy and counts the \<^verbatim>\<open>Get\<close> calls it has
  served. The script gives, for each count, the error of \<^verbatim>\<open>Get\<close> (if any), the
  enactments listed and the error of the status write (if any); a write without error
  stores the conditions of the object written.
\<close>

record FakeWorld =
  gets :: nat
  persisted :: ConditionList

datatype FakeEnactment = EnactmentAvailable | EnactmentFailed | EnactmentNotMatching | EnactmentProgressing

definition fakeCount :: "FakeEnactment list \<Rightarrow> EnactmentCounts" where
  "fakeCount enactments =
     \<lparr>Matching = of_nat (length (filter (\<lambda>e. e \<noteq> EnactmentNotMatching) enactments)),
      Available = of_nat (length (filter (\<lambda>e. e = EnactmentAvailable) enactments)),
      Failed = of_nat (length (filter (\<lambda>e. e = EnactmentFailed) enactments)),
      NotMatching = of_nat (length (filter (\<lambda>e. e = EnactmentNotMatching) enactments))\<rparr>"

definition fakeClient ::
  "(nat \<Rightarrow> error option) \<Rightarrow> (nat \<Rightarrow> FakeEnactment list) \<Rightarrow> Node list \<Rightarrow> (nat \<Rightarrow> error option)
     \<Rightarrow> (FakeWorld, unit, FakeEnactment) Client"
where
  "fakeClient getErr enactmentsAt nodes writeErr =
     \<lparr>Get = (\<lambda>policyKey w.
         (case getErr (gets w) of
            Some err \<Rightarrow> Inl err
          | None \<Rightarrow> Inr \<lparr>Name = snd policyKey, Status_Conditions = persisted w\<rparr>,
          w\<lparr>gets := Suc (gets w)\<rparr>)),
      List_Enactments = (\<lambda>label w. (Inr (enactmentsAt (gets w)), w)),
      List_Nodes = (\<lambda>w. (Inr nodes, w)),
      Status_Update = (\<lambda>policy w.
         (case writeErr (gets w) of
            Some err \<Rightarrow> (Some err, w)
          | None \<Rightarrow> (None, w\<lparr>persisted := Status_Conditions policy\<rparr>)))\<rparr>"

definition readyNode :: Node where
  "readyNode = \<lparr>NodeStatus_Conditions = [\<lparr>NodeCondition.Type = NodeReady, NodeCondition.Status = ConditionTrue\<rparr>]\<rparr>"

text \<open>
  Scripts: a status write that conflicts in the first attempt while the enactments
  change before the second; a \<^verbatim>\<open>Get\<close> that fails once, with a conflict error; a \<^verbatim>\<open>Get\<close> that
  never finds the policy; closures that end in two conflicts and then another error, or
  always in a conflict; a client for \<^verbatim>\<open>Reset\<close>; and a list of conditions to start from.
\<close>

definition conflictOnceClient :: "(FakeWorld, unit, FakeEnactment) Client" where
  "conflictOnceClient =
     fakeClient (\<lambda>t. None)
       (\<lambda>t. if t = 1 then [EnactmentAvailable, EnactmentProgressing]
            else [EnactmentAvailable, EnactmentFailed])
       [readyNode, readyNode]
       (\<lambda>t. if t = 1 then Some ConflictError else None)"

definition getConflictClient :: "(FakeWorld, unit, FakeEnactment) Client" where
  "getConflictClient =
     fakeClient (\<lambda>t. if t = 0 then Some ConflictError else None)
       (\<lambda>t. [EnactmentAvailable, EnactmentFailed])
       [readyNode, readyNode]
       (\<lambda>t. None)"

definition getNotFoundClient :: "(FakeWorld, unit, FakeEnactment) Client" where
  "getNotFoundClient =
     fakeClient (\<lambda>t. Some NotFoundError)
       (\<lambda>t. [EnactmentAvailable, EnactmentFailed])
       [readyNode, readyNode]
       (\<lambda>t. None)"

definition conflictsThenError :: "nat \<Rightarrow> error option \<times> nat" where
  "conflictsThenError w =
     (if w < 2 then Some ConflictError else Some (OtherError ''refused''), Suc w)"

definition alwaysConflict :: "nat \<Rightarrow> error option \<times> nat" where
  "alwaysConflict w = (Some ConflictError, Suc w)"

definition resetClient :: "(FakeWorld, unit, FakeEnactment) Client" where
  "resetClient = fakeClient (\<lambda>t. None) (\<lambda>t. []) [] (\<lambda>t. if t = 1 then Some ConflictError else None)"

definition failedConditions :: ConditionList where
  "failedConditions =
     [\<lparr>Type = ''Degraded'', Status = ConditionTrue, Reason = ''FailedToConfigure'',
        Message = ''1/2 nodes failed to configure''\<rparr>,
      \<lparr>Type = ''Available'', Status = ConditionFalse, Reason = ''FailedToConfigure'',
        Message = ''''\<rparr>]"

section \<open>Properties\<close>

subsection \<open>The condition list\<close>

lemma Find_Set_same:
  "ConditionList_Find (ConditionList_Set cs t s r m) t =
     Some \<lparr>Type = t, Status = s, Reason = r, Message = m\<rparr>"
  by (induction cs) auto

lemma Find_Set_other:
  "t' \<noteq> t \<Longrightarrow> ConditionList_Find (ConditionList_Set cs t s r m) t' = ConditionList_Find cs t'"
  by (induction cs) auto

lemma filter_Set_other:
  "\<not> P t \<Longrightarrow>
     filter (\<lambda>c. P (Type c)) (ConditionList_Set cs t s r m) = filter (\<lambda>c. P (Type c)) cs"
  by (induction cs) auto

lemma Degraded_neq_Available:
  "NodeNetworkConfigurationPolicyConditionDegraded \<noteq> NodeNetworkConfigurationPolicyConditionAvailable"
  by (simp add: NodeNetworkConfigurationPolicyConditionDegraded_def
      NodeNetworkConfigurationPolicyConditionAvailable_def)

text \<open>The two conditions that a pair of \<^verbatim>\<open>Set\<close> calls, Degraded first, leaves in the list.\<close>

lemma Find_Set_Set:
  "ConditionList_Find
     (ConditionList_Set
        (ConditionList_Set cs NodeNetworkConfigurationPolicyConditionDegraded s r m)
        NodeNetworkConfigurationPolicyConditionAvailable s' r' m')
     NodeNetworkConfigurationPolicyConditionDegraded =
   Some \<lparr>Type = NodeNetworkConfigurationPolicyConditionDegraded,
         Status = s, Reason = r, Message = m\<rparr>"
  "ConditionList_Find
     (ConditionList_Set
        (ConditionList_Set cs NodeNetworkConfigurationPolicyConditionDegraded s r m)
        NodeNetworkConfigurationPolicyConditionAvailable s' r' m')
     NodeNetworkConfigurationPolicyConditionAvailable =
   Some \<lparr>Type = NodeNetworkConfigurationPolicyConditionAvailable,
         Status = s', Reason = r', Message = m'\<rparr>"
  by (simp_all add: Find_Set_same Find_Set_other Degraded_neq_Available)

lemma filter_Set_Set:
  "filter (\<lambda>c. Type c \<noteq> NodeNetworkConfigurationPolicyConditionDegraded
              \<and> Type c \<noteq> NodeNetworkConfigurationPolicyConditionAvailable)
     (ConditionList_Set
        (ConditionList_Set cs NodeNetworkConfigurationPolicyConditionDegraded s r m)
        NodeNetworkConfigurationPolicyConditionAvailable s' r' m') =
   filter (\<lambda>c. Type c \<noteq> NodeNetworkConfigurationPolicyConditionDegraded
              \<and> Type c \<noteq> NodeNetworkConfigurationPolicyConditionAvailable) cs"
proof -
  let ?P = "\<lambda>t. t \<noteq> NodeNetworkConfigurationPolicyConditionDegraded
                \<and> t \<noteq> NodeNetworkConfigurationPolicyConditionAvailable"
  have "\<not> ?P NodeNetworkConfigurationPolicyConditionDegraded"
    and "\<not> ?P NodeNetworkConfigurationPolicyConditionAvailable"
    by simp_all
  then show ?thesis
    using filter_Set_other [of ?P] by simp
qed

lemmas setPolicy_defs =
  setPolicyProgressing_def setPolicySuccess_def setPolicyNotMatching_def
  setPolicyFailedToConfigure_def

lemmas reason_defs =
  NodeNetworkConfigurationPolicyConditionConfigurationProgressing_def
  NodeNetworkConfigurationPolicyConditionSuccessfullyConfigured_def
  NodeNetworkConfigurationPolicyConditionConfigurationNoMatchingNode_def
  NodeNetworkConfigurationPolicyConditionFailedToConfigure_def

text \<open>The branch of \<^verbatim>\<open>Update\<close> that is taken, by its guard.\<close>

lemma Update_conditions_branch:
  "numberOfFinishedEnactments c <s n \<Longrightarrow>
     Update_conditions n c cs =
       setPolicyProgressing cs
         (''Policy is progressing '' @ Sprintf_d (numberOfFinishedEnactments c) @ ''/''
            @ Sprintf_d n @ '' nodes finished'')"
  "n \<le>s numberOfFinishedEnactments c \<Longrightarrow> Matching c = 0 \<Longrightarrow>
     Update_conditions n c cs = setPolicyNotMatching cs ''Policy does not match any node''"
  "n \<le>s numberOfFinishedEnactments c \<Longrightarrow> Matching c \<noteq> 0 \<Longrightarrow> 0 <s Failed c \<Longrightarrow>
     Update_conditions n c cs =
       setPolicyFailedToConfigure cs
         (Sprintf_d (Failed c) @ ''/'' @ Sprintf_d (Matching c) @ '' nodes failed to configure'')"
  "n \<le>s numberOfFinishedEnactments c \<Longrightarrow> Matching c \<noteq> 0 \<Longrightarrow> \<not> 0 <s Failed c \<Longrightarrow>
     Update_conditions n c cs =
       setPolicySuccess cs
         (Sprintf_d (Available c) @ ''/'' @ Sprintf_d (Available c)
            @ '' nodes successfully configured'')"
  by (simp_all add: Update_conditions_def signed.not_less [symmetric])

lemmas goint_eval = word_sless_alt word_sle_eq Sprintf_d_def decimal.simps

subsection \<open>The four branches\<close>

text \<open>
  C1. When fewer enactments have finished than there are ready nodes, Degraded is
  Unknown with reason ConfigurationProgressing and no message, and Available is Unknown
  with the same reason and the message "Policy is progressing f/r nodes finished", f the
  finished count and r the ready count in decimal. This holds for every ready count,
  every counts and every prior list.
\<close>

theorem Update_progressing:
  assumes "numberOfFinishedEnactments enactmentsCount <s numberOfReadyNodes"
  shows "ConditionList_Find (Update_conditions numberOfReadyNodes enactmentsCount conditions)
           NodeNetworkConfigurationPolicyConditionDegraded =
         Some \<lparr>Type = NodeNetworkConfigurationPolicyConditionDegraded, Status = ConditionUnknown,
               Reason = ''ConfigurationProgressing'', Message = ''''\<rparr>
       \<and> ConditionList_Find (Update_conditions numberOfReadyNodes enactmentsCount conditions)
           NodeNetworkConfigurationPolicyConditionAvailable =
         Some \<lparr>Type = NodeNetworkConfigurationPolicyConditionAvailable, Status = ConditionUnknown,
               Reason = ''ConfigurationProgressing'',
               Message = ''Policy is progressing ''
                 @ Sprintf_d (numberOfFinishedEnactments enactmentsCount) @ ''/''
                 @ Sprintf_d numberOfReadyNodes @ '' nodes finished''\<rparr>"
  using assms
  by (simp add: Update_conditions_branch setPolicyProgressing_def Find_Set_Set reason_defs)

theorem Update_progressing_witness:
  "numberOfFinishedEnactments \<lparr>Matching = 3, Available = 1, Failed = 0, NotMatching = 0\<rparr> <s 3
   \<and> ConditionList_Find
       (Update_conditions 3 \<lparr>Matching = 3, Available = 1, Failed = 0, NotMatching = 0\<rparr> [])
       NodeNetworkConfigurationPolicyConditionAvailable =
     Some \<lparr>Type = NodeNetworkConfigurationPolicyConditionAvailable, Status = ConditionUnknown,
           Reason = ''ConfigurationProgressing'',
           Message = ''Policy is progressing 1/3 nodes finished''\<rparr>"
proof -
  have h: "numberOfFinishedEnactments
             \<lparr>Matching = 3, Available = 1, Failed = 0, NotMatching = 0\<rparr> <s 3"
    by (simp add: numberOfFinishedEnactments_def word_sless_alt)
  show ?thesis
    using h Update_progressing [OF h, of "[]"]
    by (simp add: numberOfFinishedEnactments_def goint_eval)
qed

text \<open>
  C2. When at least as many enactments have finished as there are ready nodes and the
  matching count is zero, Degraded is False and Available is True, both with reason
  ConfigurationNoMatchingNode and the message "Policy does not match any node",
  whatever the other three counts are.
\<close>

theorem Update_not_matching:
  assumes "numberOfReadyNodes \<le>s numberOfFinishedEnactments enactmentsCount"
    and "Matching enactmentsCount = 0"
  shows "ConditionList_Find (Update_conditions numberOfReadyNodes enactmentsCount conditions)
           NodeNetworkConfigurationPolicyConditionDegraded =
         Some \<lparr>Type = NodeNetworkConfigurationPolicyConditionDegraded, Status = ConditionFalse,
               Reason = ''ConfigurationNoMatchingNode'',
               Message = ''Policy does not match any node''\<rparr>
       \<and> ConditionList_Find (Update_conditions numberOfReadyNodes enactmentsCount conditions)
           NodeNetworkConfigurationPolicyConditionAvailable =
         Some \<lparr>Type = NodeNetworkConfigurationPolicyConditionAvailable, Status = ConditionTrue,
               Reason = ''ConfigurationNoMatchingNode'',
               Message = ''Policy does not match any node''\<rparr>"
  using assms
  by (simp add: Update_conditions_branch setPolicyNotMatching_def Find_Set_Set reason_defs)

theorem Update_not_matching_witness:
  "(2 :: goint) \<le>s numberOfFinishedEnactments
       \<lparr>Matching = 0, Available = 1, Failed = 1, NotMatching = 2\<rparr>
   \<and> Matching \<lparr>Matching = 0, Available = 1, Failed = 1, NotMatching = 2\<rparr> = 0
   \<and> ConditionList_Find
       (Update_conditions 2 \<lparr>Matching = 0, Available = 1, Failed = 1, NotMatching = 2\<rparr> [])
       NodeNetworkConfigurationPolicyConditionAvailable =
     Some \<lparr>Type = NodeNetworkConfigurationPolicyConditionAvailable, Status = ConditionTrue,
           Reason = ''ConfigurationNoMatchingNode'',
           Message = ''Policy does not match any node''\<rparr>"
proof -
  let ?c = "\<lparr>Matching = 0, Available = 1, Failed = 1, NotMatching = 2\<rparr> :: EnactmentCounts"
  have h1: "(2 :: goint) \<le>s numberOfFinishedEnactments ?c"
    by (simp add: numberOfFinishedEnactments_def word_sle_eq)
  have h2: "Matching ?c = 0"
    by simp
  show ?thesis
    using h1 h2 Update_not_matching [OF h1 h2, of "[]"] by simp
qed

text \<open>
  C3. When at least as many enactments have finished as there are ready nodes, the
  matching count is not zero (in particular when it is positive) and the failed count
  is positive, Degraded is True with reason FailedToConfigure and the message
  "f/m nodes failed to configure", f the failed and m the matching count in decimal,
  and Available is False with the same reason and no message. The example after it is the
  scenario of three ready nodes and the counts matching 3, available 2, failed 1,
  not matching 0, with the message "1/3 nodes failed to configure".
\<close>

theorem Update_failed_to_configure:
  assumes "numberOfReadyNodes \<le>s numberOfFinishedEnactments enactmentsCount"
    and "Matching enactmentsCount \<noteq> 0"
    and "0 <s Failed enactmentsCount"
  shows "ConditionList_Find (Update_conditions numberOfReadyNodes enactmentsCount conditions)
           NodeNetworkConfigurationPolicyConditionDegraded =
         Some \<lparr>Type = NodeNetworkConfigurationPolicyConditionDegraded, Status = ConditionTrue,
               Reason = ''FailedToConfigure'',
               Message = Sprintf_d (Failed enactmentsCount) @ ''/''
                 @ Sprintf_d (Matching enactmentsCount) @ '' nodes failed to configure''\<rparr>
       \<and> ConditionList_Find (Update_conditions numberOfReadyNodes enactmentsCount conditions)
           NodeNetworkConfigurationPolicyConditionAvailable =
         Some \<lparr>Type = NodeNetworkConfigurationPolicyConditionAvailable, Status = ConditionFalse,
               Reason = ''FailedToConfigure'', Message = ''''\<rparr>"
  using assms
  by (simp add: Update_conditions_branch setPolicyFailedToConfigure_def Find_Set_Set reason_defs)

theorem Update_failed_to_configure_witness:
  "(3 :: goint) \<le>s numberOfFinishedEnactments
       \<lparr>Matching = 3, Available = 2, Failed = 1, NotMatching = 0\<rparr>
   \<and> Matching \<lparr>Matching = 3, Available = 2, Failed = 1, NotMatching = (0 :: goint)\<rparr> \<noteq> 0
   \<and> 0 <s Failed \<lparr>Matching = 3, Available = 2, Failed = 1, NotMatching = (0 :: goint)\<rparr>
   \<and> ConditionList_Find
       (Update_conditions 3 \<lparr>Matching = 3, Available = 2, Failed = 1, NotMatching = 0\<rparr> [])
       NodeNetworkConfigurationPolicyConditionDegraded =
     Some \<lparr>Type = NodeNetworkConfigurationPolicyConditionDegraded, Status = ConditionTrue,
           Reason = ''FailedToConfigure'',
           Message = ''1/3 nodes failed to configure''\<rparr>"
proof -
  let ?c = "\<lparr>Matching = 3, Available = 2, Failed = 1, NotMatching = 0\<rparr> :: EnactmentCounts"
  have h1: "(3 :: goint) \<le>s numberOfFinishedEnactments ?c"
    by (simp add: numberOfFinishedEnactments_def word_sle_eq)
  have h2: "Matching ?c \<noteq> 0"
    by simp
  have h3: "0 <s Failed ?c"
    by (simp add: word_sless_alt)
  show ?thesis
    using h1 h2 h3 Update_failed_to_configure [OF h1 h2 h3, of "[]"]
    by (simp add: goint_eval)
qed

text \<open>
  C4. When at least as many enactments have finished as there are ready nodes, the
  matching count is not zero (in particular when it is positive) and the failed count
  is not positive (in particular when it is zero), Degraded is False with reason
  SuccessfullyConfigured and no message, and Available is True with the same reason and
  the message "a/a nodes successfully configured", where both numbers are the available
  count: the matching count does not appear.
\<close>

theorem Update_success:
  assumes "numberOfReadyNodes \<le>s numberOfFinishedEnactments enactmentsCount"
    and "Matching enactmentsCount \<noteq> 0"
    and "\<not> 0 <s Failed enactmentsCount"
  shows "ConditionList_Find (Update_conditions numberOfReadyNodes enactmentsCount conditions)
           NodeNetworkConfigurationPolicyConditionDegraded =
         Some \<lparr>Type = NodeNetworkConfigurationPolicyConditionDegraded, Status = ConditionFalse,
               Reason = ''SuccessfullyConfigured'', Message = ''''\<rparr>
       \<and> ConditionList_Find (Update_conditions numberOfReadyNodes enactmentsCount conditions)
           NodeNetworkConfigurationPolicyConditionAvailable =
         Some \<lparr>Type = NodeNetworkConfigurationPolicyConditionAvailable, Status = ConditionTrue,
               Reason = ''SuccessfullyConfigured'',
               Message = Sprintf_d (Available enactmentsCount) @ ''/''
                 @ Sprintf_d (Available enactmentsCount)
                 @ '' nodes successfully configured''\<rparr>"
  using assms
  by (simp add: Update_conditions_branch setPolicySuccess_def Find_Set_Set reason_defs)

theorem Update_success_witness:
  "(3 :: goint) \<le>s numberOfFinishedEnactments
       \<lparr>Matching = 4, Available = 3, Failed = 0, NotMatching = 0\<rparr>
   \<and> Matching \<lparr>Matching = 4, Available = 3, Failed = 0, NotMatching = (0 :: goint)\<rparr> \<noteq> 0
   \<and> \<not> 0 <s Failed \<lparr>Matching = 4, Available = 3, Failed = 0, NotMatching = (0 :: goint)\<rparr>
   \<and> ConditionList_Find
       (Update_conditions 3 \<lparr>Matching = 4, Available = 3, Failed = 0, NotMatching = 0\<rparr> [])
       NodeNetworkConfigurationPolicyConditionAvailable =
     Some \<lparr>Type = NodeNetworkConfigurationPolicyConditionAvailable, Status = ConditionTrue,
           Reason = ''SuccessfullyConfigured'',
           Message = ''3/3 nodes successfully configured''\<rparr>"
proof -
  let ?c = "\<lparr>Matching = 4, Available = 3, Failed = 0, NotMatching = 0\<rparr> :: EnactmentCounts"
  have h1: "(3 :: goint) \<le>s numberOfFinishedEnactments ?c"
    by (simp add: numberOfFinishedEnactments_def word_sle_eq)
  have h2: "Matching ?c \<noteq> 0"
    by simp
  have h3: "\<not> 0 <s Failed ?c"
    by (simp add: word_sless_alt)
  show ?thesis
    using h1 h2 h3 Update_success [OF h1 h2 h3, of "[]"]
    by (simp add: goint_eval)
qed

subsection \<open>The pair of conditions\<close>

text \<open>
  C10. Whatever the ready count, the counts and the prior list, after the decision the
  list holds a Degraded and an Available condition with the same reason; the two are
  never both True: both are Unknown exactly in the progressing branch, and in every
  other branch one is True and the other False. Only these two types are written: the
  conditions of every other type are the same, in the same order, as before, and from
  the empty list the result is the Degraded condition followed by the Available one.
\<close>

theorem Update_conditions_pair:
  "\<exists>d a.
     ConditionList_Find (Update_conditions numberOfReadyNodes enactmentsCount conditions)
       NodeNetworkConfigurationPolicyConditionDegraded = Some d
   \<and> ConditionList_Find (Update_conditions numberOfReadyNodes enactmentsCount conditions)
       NodeNetworkConfigurationPolicyConditionAvailable = Some a
   \<and> Reason d = Reason a
   \<and> \<not> (Status d = ConditionTrue \<and> Status a = ConditionTrue)
   \<and> (if numberOfFinishedEnactments enactmentsCount <s numberOfReadyNodes
      then Status d = ConditionUnknown \<and> Status a = ConditionUnknown
      else (Status d = ConditionTrue \<and> Status a = ConditionFalse)
         \<or> (Status d = ConditionFalse \<and> Status a = ConditionTrue))
   \<and> filter (\<lambda>c. Type c \<noteq> NodeNetworkConfigurationPolicyConditionDegraded
                \<and> Type c \<noteq> NodeNetworkConfigurationPolicyConditionAvailable)
       (Update_conditions numberOfReadyNodes enactmentsCount conditions) =
     filter (\<lambda>c. Type c \<noteq> NodeNetworkConfigurationPolicyConditionDegraded
                \<and> Type c \<noteq> NodeNetworkConfigurationPolicyConditionAvailable)
       conditions
   \<and> map Type (Update_conditions numberOfReadyNodes enactmentsCount []) =
     [NodeNetworkConfigurationPolicyConditionDegraded,
      NodeNetworkConfigurationPolicyConditionAvailable]"
  by (simp add: Update_conditions_def setPolicy_defs Find_Set_Set filter_Set_Set
      Degraded_neq_Available)

text \<open>
  The invariant on a prior list that holds the two conditions of an earlier failure and
  a condition of a third type.
\<close>

theorem Update_conditions_pair_witness:
  "\<exists>d a.
     ConditionList_Find
       (Update_conditions 3 \<lparr>Matching = 3, Available = 3, Failed = 0, NotMatching = 0\<rparr>
          (\<lparr>Type = ''Other'', Status = ConditionTrue, Reason = ''r'', Message = ''m''\<rparr>
             # failedConditions))
       NodeNetworkConfigurationPolicyConditionDegraded = Some d
   \<and> ConditionList_Find
       (Update_conditions 3 \<lparr>Matching = 3, Available = 3, Failed = 0, NotMatching = 0\<rparr>
          (\<lparr>Type = ''Other'', Status = ConditionTrue, Reason = ''r'', Message = ''m''\<rparr>
             # failedConditions))
       NodeNetworkConfigurationPolicyConditionAvailable = Some a
   \<and> Reason d = Reason a
   \<and> \<not> (Status d = ConditionTrue \<and> Status a = ConditionTrue)
   \<and> filter (\<lambda>c. Type c \<noteq> NodeNetworkConfigurationPolicyConditionDegraded
                \<and> Type c \<noteq> NodeNetworkConfigurationPolicyConditionAvailable)
       (Update_conditions 3 \<lparr>Matching = 3, Available = 3, Failed = 0, NotMatching = 0\<rparr>
          (\<lparr>Type = ''Other'', Status = ConditionTrue, Reason = ''r'', Message = ''m''\<rparr>
             # failedConditions)) =
     [\<lparr>Type = ''Other'', Status = ConditionTrue, Reason = ''r'', Message = ''m''\<rparr>]"
proof -
  let ?other = "\<lparr>Type = ''Other'', Status = ConditionTrue, Reason = ''r'', Message = ''m''\<rparr>"
  have "filter (\<lambda>c. Type c \<noteq> NodeNetworkConfigurationPolicyConditionDegraded
                \<and> Type c \<noteq> NodeNetworkConfigurationPolicyConditionAvailable)
          (?other # failedConditions) = [?other]"
    by (simp add: failedConditions_def NodeNetworkConfigurationPolicyConditionDegraded_def
        NodeNetworkConfigurationPolicyConditionAvailable_def)
  with Update_conditions_pair
    [of 3 "\<lparr>Matching = 3, Available = 3, Failed = 0, NotMatching = 0\<rparr>"
      "?other # failedConditions"]
  show ?thesis
    by auto
qed

subsection \<open>Decimal rendering\<close>

text \<open>The digits written for a number read back as that number.\<close>

lemma digit_char_value:
  assumes "n < 10"
  shows "of_char (''0123456789'' ! n) = 48 + n"
proof -
  from assms have "n \<in> {0, 1, 2, 3, 4, 5, 6, 7, 8, 9 :: nat}"
    by auto
  then show ?thesis
    by auto
qed

lemma decimal_value:
  "foldl (\<lambda>a c. 10 * a + (of_char c - 48)) 0 (decimal n) = n"
proof (induction n rule: decimal.induct)
  case (1 n)
  show ?case
  proof (cases "n < 10")
    case True
    then show ?thesis
      by (subst decimal.simps) (simp add: digit_char_value)
  next
    case False
    have "n mod 10 < 10" by simp
    then have d: "of_char (''0123456789'' ! (n mod 10)) = 48 + n mod 10"
      by (rule digit_char_value)
    from False 1 show ?thesis
      by (subst decimal.simps) (simp add: d)
  qed
qed

subsection \<open>Ready nodes\<close>

lemma numberOfReadyNodes_conditions_eq:
  "numberOfReadyNodes_conditions cs n =
     n + of_nat (length (filter
       (\<lambda>c. NodeCondition.Type c = NodeReady \<and> NodeCondition.Status c = ConditionTrue) cs))"
  by (induction cs arbitrary: n) simp_all

lemma numberOfReadyNodes_items_eq:
  "numberOfReadyNodes_items nodes n =
     n + of_nat (length (filter
       (\<lambda>c. NodeCondition.Type c = NodeReady \<and> NodeCondition.Status c = ConditionTrue)
       (concat (map NodeStatus_Conditions nodes))))"
  by (induction nodes arbitrary: n) (simp_all add: numberOfReadyNodes_conditions_eq)

text \<open>The loops count the (Ready, True) entries of all nodes together.\<close>

lemma Update_numberOfReadyNodes_entries:
  "Update_numberOfReadyNodes nodes =
     of_nat (length (filter
       (\<lambda>c. NodeCondition.Type c = NodeReady \<and> NodeCondition.Status c = ConditionTrue)
       (concat (map NodeStatus_Conditions nodes))))"
  by (simp add: Update_numberOfReadyNodes_def numberOfReadyNodes_items_eq)

text \<open>They count the ready nodes when no node has more than one such entry.\<close>

lemma Update_numberOfReadyNodes_spec:
  assumes "\<forall>node \<in> set nodes.
     length (filter
       (\<lambda>c. NodeCondition.Type c = NodeReady \<and> NodeCondition.Status c = ConditionTrue)
       (NodeStatus_Conditions node)) \<le> 1"
  shows "Update_numberOfReadyNodes nodes = of_nat (spec_ReadyNodeCount nodes)"
proof -
  let ?P = "\<lambda>c. NodeCondition.Type c = NodeReady \<and> NodeCondition.Status c = ConditionTrue"
  have "length (filter ?P (concat (map NodeStatus_Conditions nodes))) =
        length (filter spec_nodeReady nodes)"
    using assms
  proof (induction nodes)
    case Nil
    then show ?case by simp
  next
    case (Cons node nodes)
    have one: "length (filter ?P (NodeStatus_Conditions node)) \<le> 1"
      using Cons.prems by simp
    have "length (filter ?P (NodeStatus_Conditions node)) = (if spec_nodeReady node then 1 else 0)"
    proof (cases "spec_nodeReady node")
      case True
      then have "filter ?P (NodeStatus_Conditions node) \<noteq> []"
        by (auto simp: spec_nodeReady_def list_ex_iff filter_empty_conv)
      then have "0 < length (filter ?P (NodeStatus_Conditions node))"
        by simp
      with one have "length (filter ?P (NodeStatus_Conditions node)) = 1"
        by linarith
      with True show ?thesis by simp
    next
      case False
      then have "filter ?P (NodeStatus_Conditions node) = []"
        by (auto simp: spec_nodeReady_def list_ex_iff filter_empty_conv)
      with False show ?thesis by simp
    qed
    with Cons show ?case by simp
  qed
  then show ?thesis
    by (simp add: Update_numberOfReadyNodes_entries spec_ReadyNodeCount_def)
qed

text \<open>
  C8. The ready count is to be the number of nodes that have a (Ready, True) condition,
  each such node counted once. The inner loop adds one for every such entry and does
  not leave the node at the first one: a single node whose condition list holds the
  entry twice gives the count 2, where the number of ready nodes is 1.
\<close>

theorem Update_numberOfReadyNodes_twice:
  "Update_numberOfReadyNodes
     [\<lparr>NodeStatus_Conditions =
         [\<lparr>NodeCondition.Type = NodeReady, NodeCondition.Status = ConditionTrue\<rparr>,
          \<lparr>NodeCondition.Type = NodeReady, NodeCondition.Status = ConditionTrue\<rparr>]\<rparr>] = 2
   \<and> spec_ReadyNodeCount
     [\<lparr>NodeStatus_Conditions =
         [\<lparr>NodeCondition.Type = NodeReady, NodeCondition.Status = ConditionTrue\<rparr>,
          \<lparr>NodeCondition.Type = NodeReady, NodeCondition.Status = ConditionTrue\<rparr>]\<rparr>] = 1"
  by (simp add: Update_numberOfReadyNodes_def spec_ReadyNodeCount_def spec_nodeReady_def)

subsection \<open>The executor\<close>

lemma attempt_world_0 [simp]: "attempt_world fn 0 w = w"
  by (simp add: attempt_world_def)

lemma attempt_world_Suc: "attempt_world fn (Suc k) w = attempt_world fn k (snd (fn w))"
  unfolding attempt_world_def using funpow_swap1 [of "\<lambda>v. snd (fn v)" k w] by simp

lemma RetryOnConflict_loop_not_conflicted:
  "\<not> conflicted (fn w) \<Longrightarrow> RetryOnConflict_loop (Suc n) fn lastErr w = fn w"
  by (cases "fn w") (auto simp: conflicted_def split: option.splits)

lemma RetryOnConflict_loop_conflicted:
  "conflicted (fn w) \<Longrightarrow>
     RetryOnConflict_loop (Suc n) fn lastErr w =
       RetryOnConflict_loop n fn (fst (fn w)) (snd (fn w))"
  by (cases "fn w") (auto simp: conflicted_def split: option.splits)

lemma RetryOnConflict_loop_last:
  "conflicted (fn w) \<Longrightarrow> RetryOnConflict_loop (Suc 0) fn lastErr w = fn w"
  by (cases "fn w") (auto simp: conflicted_def split: option.splits)

declare RetryOnConflict_loop.simps(2) [simp del]

text \<open>
  The executor returns what the first attempt that did not end in a conflict returned,
  or what the lastErr attempt returned when all ended in a conflict.
\<close>

lemma RetryOnConflict_loop_char:
  "\<exists>k\<le>n. RetryOnConflict_loop (Suc n) fn lastErr w = fn (attempt_world fn k w)
        \<and> (\<forall>j<k. conflicted (fn (attempt_world fn j w)))
        \<and> (k < n \<longrightarrow> \<not> conflicted (fn (attempt_world fn k w)))"
proof (induction n arbitrary: lastErr w)
  case 0
  show ?case
    using RetryOnConflict_loop_last [of fn w lastErr]
      RetryOnConflict_loop_not_conflicted [of fn w 0 lastErr]
    by (cases "conflicted (fn w)") (simp_all)
next
  case (Suc n)
  show ?case
  proof (cases "conflicted (fn w)")
    case False
    then have "RetryOnConflict_loop (Suc (Suc n)) fn lastErr w = fn (attempt_world fn 0 w)"
      by (simp add: RetryOnConflict_loop_not_conflicted)
    with False show ?thesis
      by (intro exI [of _ 0]) simp
  next
    case True
    from Suc.IH [of "fst (fn w)" "snd (fn w)"]
    obtain k where k: "k \<le> n"
      and res: "RetryOnConflict_loop (Suc n) fn (fst (fn w)) (snd (fn w)) =
                  fn (attempt_world fn k (snd (fn w)))"
      and before: "\<forall>j<k. conflicted (fn (attempt_world fn j (snd (fn w))))"
      and stop: "k < n \<longrightarrow> \<not> conflicted (fn (attempt_world fn k (snd (fn w))))"
      by blast
    have "RetryOnConflict_loop (Suc (Suc n)) fn lastErr w = fn (attempt_world fn (Suc k) w)"
      using True res by (simp add: RetryOnConflict_loop_conflicted attempt_world_Suc)
    moreover have "\<forall>j<Suc k. conflicted (fn (attempt_world fn j w))"
    proof (intro allI impI)
      fix j assume "j < Suc k"
      then show "conflicted (fn (attempt_world fn j w))"
        using True before by (cases j) (simp_all add: attempt_world_Suc)
    qed
    moreover have "Suc k < Suc n \<longrightarrow> \<not> conflicted (fn (attempt_world fn (Suc k) w))"
      using stop by (simp add: attempt_world_Suc)
    ultimately show ?thesis
      using k by (intro exI [of _ "Suc k"]) simp
  qed
qed

lemma RetryOnConflict_char:
  assumes "0 < steps"
  shows "\<exists>k < steps. RetryOnConflict steps fn w = fn (attempt_world fn k w)
        \<and> (\<forall>j<k. conflicted (fn (attempt_world fn j w)))
        \<and> (Suc k < steps \<longrightarrow> \<not> conflicted (fn (attempt_world fn k w)))"
proof -
  from assms obtain n where n: "steps = Suc n"
    by (cases steps) simp_all
  from RetryOnConflict_loop_char [of n fn None w] show ?thesis
    unfolding n RetryOnConflict_def by (auto simp: less_Suc_eq_le)
qed

lemma counted_loop_bound:
  "snd (snd (RetryOnConflict_loop n (counted fn) lastErr (w, c))) \<le> c + n"
proof (induction n arbitrary: lastErr w c)
  case 0
  show ?case by simp
next
  case (Suc n)
  obtain r w' where fw: "fn w = (r, w')"
    by (cases "fn w")
  then have cw: "counted fn (w, c) = (r, (w', Suc c))"
    by (simp add: counted_def)
  show ?case
  proof (cases "conflicted (counted fn (w, c))")
    case False
    from False RetryOnConflict_loop_not_conflicted [of "counted fn" "(w, c)" n lastErr] show ?thesis
      by (simp add: cw)
  next
    case True
    have "snd (snd (RetryOnConflict_loop n (counted fn) r (w', Suc c))) \<le> Suc c + n"
      by (rule Suc.IH)
    with True RetryOnConflict_loop_conflicted [of "counted fn" "(w, c)" n lastErr] show ?thesis
      by (simp add: cw)
  qed
qed

lemma Update_fn_success:
  assumes "Update_fn Count cli policyKey w = (None, w')"
  shows "\<exists>policy w1 enactments w2 nodes w3.
      Get cli policyKey w = (Inr policy, w1)
    \<and> List_Enactments cli (Name policy) w1 = (Inr enactments, w2)
    \<and> List_Nodes cli w2 = (Inr nodes, w3)
    \<and> Status_Update cli
        (policy\<lparr>Status_Conditions :=
           Update_conditions (Update_numberOfReadyNodes nodes) (Count enactments)
             (Status_Conditions policy)\<rparr>) w3 = (None, w')"
  using assms unfolding Update_fn_def
  by (auto split: prod.splits sum.splits)

lemma Reset_fn_success:
  assumes "Reset_fn cli policyKey w = (None, w')"
  shows "\<exists>policy w1.
      Get cli policyKey w = (Inr policy, w1)
    \<and> Status_Update cli (policy\<lparr>Status_Conditions := []\<rparr>) w1 = (None, w')"
  using assms unfolding Reset_fn_def
  by (auto split: prod.splits sum.splits)

lemmas fake_eval =
  fakeClient_def fakeCount_def readyNode_def NodeReady_def
  Update_def Reset_def RetryOnConflict_def RetryOnConflict_loop.simps Update_fn_def Reset_fn_def
  Update_numberOfReadyNodes_def Update_conditions_def numberOfFinishedEnactments_def
  setPolicy_defs reason_defs
  NodeNetworkConfigurationPolicyConditionDegraded_def
  NodeNetworkConfigurationPolicyConditionAvailable_def
  goint_eval eval_nat_numeral

text \<open>
  C6. The executor that wraps the closures of \<^verbatim>\<open>Update\<close> and \<^verbatim>\<open>Reset\<close> goes on to another
  attempt only after an attempt that ended in a version conflict. It returns what the
  first attempt that did not end in a conflict returned, success or error, in the world
  that attempt left: an error that is not a conflict ends the run at once. It makes at
  most \<open>steps\<close> attempts, and when all of them end in a conflict it returns the conflict
  error of the last one.
\<close>

theorem RetryOnConflict_contract:
  assumes "0 < steps"
  shows "(\<forall>j < steps.
            (\<forall>i<j. conflicted (fn (attempt_world fn i w)))
            \<and> \<not> conflicted (fn (attempt_world fn j w))
            \<longrightarrow> RetryOnConflict steps fn w = fn (attempt_world fn j w))
       \<and> ((\<forall>j < steps. conflicted (fn (attempt_world fn j w)))
            \<longrightarrow> RetryOnConflict steps fn w = fn (attempt_world fn (steps - 1) w))
       \<and> snd (snd (RetryOnConflict steps (counted fn) (w, 0))) \<le> steps"
proof -
  from RetryOnConflict_char [OF assms, of fn w]
  obtain k where k: "k < steps"
    and res: "RetryOnConflict steps fn w = fn (attempt_world fn k w)"
    and before: "\<forall>j<k. conflicted (fn (attempt_world fn j w))"
    and stop: "Suc k < steps \<longrightarrow> \<not> conflicted (fn (attempt_world fn k w))"
    by blast
  have first: "RetryOnConflict steps fn w = fn (attempt_world fn j w)"
    if j: "j < steps" and bj: "\<forall>i<j. conflicted (fn (attempt_world fn i w))"
      and nj: "\<not> conflicted (fn (attempt_world fn j w))" for j
  proof -
    have "\<not> j < k"
      using before nj by blast
    moreover have "\<not> k < j"
    proof
      assume "k < j"
      with j have "Suc k < steps" by simp
      with stop have "\<not> conflicted (fn (attempt_world fn k w))" by simp
      with bj \<open>k < j\<close> show False by blast
    qed
    ultimately have "k = j" by simp
    with res show ?thesis by simp
  qed
  have all: "RetryOnConflict steps fn w = fn (attempt_world fn (steps - 1) w)"
    if "\<forall>j < steps. conflicted (fn (attempt_world fn j w))"
  proof -
    from that k have "conflicted (fn (attempt_world fn k w))" by blast
    with stop have "\<not> Suc k < steps" by blast
    with k have "k = steps - 1" by simp
    with res show ?thesis by simp
  qed
  have "snd (snd (RetryOnConflict steps (counted fn) (w, 0))) \<le> steps"
    using counted_loop_bound [of steps fn None w 0] by (simp add: RetryOnConflict_def)
  with first all show ?thesis by blast
qed

lemmas attempt_eval = attempt_world_def conflicted_def eval_nat_numeral All_less_Suc

text \<open>
  Five steps: two conflicts and then another error end the run at the third attempt;
  conflicts throughout end it at the fifth with the last conflict error.
\<close>

theorem RetryOnConflict_contract_witness:
  "0 < (5 :: nat)
   \<and> conflicted (conflictsThenError (attempt_world conflictsThenError 0 0))
   \<and> conflicted (conflictsThenError (attempt_world conflictsThenError 1 0))
   \<and> \<not> conflicted (conflictsThenError (attempt_world conflictsThenError 2 0))
   \<and> RetryOnConflict 5 conflictsThenError 0 = (Some (OtherError ''refused''), 3)
   \<and> conflicted (alwaysConflict (attempt_world alwaysConflict 0 0))
   \<and> conflicted (alwaysConflict (attempt_world alwaysConflict 4 0))
   \<and> RetryOnConflict 5 alwaysConflict 0 = (Some ConflictError, 5)
   \<and> snd (snd (RetryOnConflict 5 (counted alwaysConflict) (0, 0))) \<le> 5"
proof -
  have pos: "0 < (5 :: nat)" by simp
  have c: "\<forall>i<2. conflicted (conflictsThenError (attempt_world conflictsThenError i 0))"
    by (simp add: attempt_eval conflictsThenError_def)
  have n: "\<not> conflicted (conflictsThenError (attempt_world conflictsThenError 2 0))"
    by (simp add: attempt_eval conflictsThenError_def)
  have a: "\<forall>j<5. conflicted (alwaysConflict (attempt_world alwaysConflict j 0))"
    by (simp add: attempt_eval alwaysConflict_def)
  from RetryOnConflict_contract [OF pos, of conflictsThenError 0] c n
  have "RetryOnConflict 5 conflictsThenError 0 =
          conflictsThenError (attempt_world conflictsThenError 2 0)"
    by simp
  then have r1: "RetryOnConflict 5 conflictsThenError 0 = (Some (OtherError ''refused''), 3)"
    by (simp add: attempt_eval conflictsThenError_def)
  from RetryOnConflict_contract [OF pos, of alwaysConflict 0] a
  have "RetryOnConflict 5 alwaysConflict 0 = alwaysConflict (attempt_world alwaysConflict (5 - 1) 0)"
    and r3: "snd (snd (RetryOnConflict 5 (counted alwaysConflict) (0, 0))) \<le> 5"
    by simp_all
  then have r2: "RetryOnConflict 5 alwaysConflict 0 = (Some ConflictError, 5)"
    by (simp add: attempt_eval alwaysConflict_def)
  have c0: "conflicted (conflictsThenError (attempt_world conflictsThenError 0 0))"
    and c1: "conflicted (conflictsThenError (attempt_world conflictsThenError 1 0))"
    by (simp_all add: attempt_eval conflictsThenError_def)
  have a0: "conflicted (alwaysConflict (attempt_world alwaysConflict 0 0))"
    and a4: "conflicted (alwaysConflict (attempt_world alwaysConflict 4 0))"
    by (simp_all add: attempt_eval alwaysConflict_def)
  from pos c0 c1 n r1 a0 a4 r2 r3 show ?thesis by blast
qed

subsection \<open>What a successful run has written\<close>

text \<open>
  C5. When \<^verbatim>\<open>Update\<close> returns without error, every attempt before the last ended in a
  conflict, and the last attempt read the policy, the enactments and the nodes in the
  world those attempts left behind and wrote, with success, the conditions computed
  from exactly these reads. The same holds for \<^verbatim>\<open>Reset\<close> with its read of the policy.
  Nothing computed in an attempt that ended in a conflict is written later.
\<close>

theorem Update_Reset_retry_fresh:
  assumes "0 < steps"
  shows "(Update steps Count cli policyKey w0 = (None, w') \<longrightarrow>
           (\<exists>k < steps.
              (\<forall>j<k. conflicted (Update_fn Count cli policyKey
                          (attempt_world (Update_fn Count cli policyKey) j w0)))
            \<and> (\<exists>policy w1 enactments w2 nodes w3.
                  Get cli policyKey (attempt_world (Update_fn Count cli policyKey) k w0) =
                    (Inr policy, w1)
                \<and> List_Enactments cli (Name policy) w1 = (Inr enactments, w2)
                \<and> List_Nodes cli w2 = (Inr nodes, w3)
                \<and> Status_Update cli
                    (policy\<lparr>Status_Conditions :=
                       Update_conditions (Update_numberOfReadyNodes nodes) (Count enactments)
                         (Status_Conditions policy)\<rparr>) w3 = (None, w'))))
       \<and> (Reset steps cli policyKey w0 = (None, w') \<longrightarrow>
           (\<exists>k < steps.
              (\<forall>j<k. conflicted (Reset_fn cli policyKey
                          (attempt_world (Reset_fn cli policyKey) j w0)))
            \<and> (\<exists>policy w1.
                  Get cli policyKey (attempt_world (Reset_fn cli policyKey) k w0) =
                    (Inr policy, w1)
                \<and> Status_Update cli (policy\<lparr>Status_Conditions := []\<rparr>) w1 = (None, w'))))"
proof (intro conjI impI)
  assume ok: "Update steps Count cli policyKey w0 = (None, w')"
  let ?fn = "Update_fn Count cli policyKey"
  from RetryOnConflict_char [OF assms, of ?fn w0]
  obtain k where k: "k < steps"
    and res: "RetryOnConflict steps ?fn w0 = ?fn (attempt_world ?fn k w0)"
    and before: "\<forall>j<k. conflicted (?fn (attempt_world ?fn j w0))"
    by blast
  from ok res have "?fn (attempt_world ?fn k w0) = (None, w')"
    by (simp add: Update_def)
  from Update_fn_success [OF this] k before
  show "\<exists>k < steps.
          (\<forall>j<k. conflicted (?fn (attempt_world ?fn j w0)))
        \<and> (\<exists>policy w1 enactments w2 nodes w3.
              Get cli policyKey (attempt_world ?fn k w0) = (Inr policy, w1)
            \<and> List_Enactments cli (Name policy) w1 = (Inr enactments, w2)
            \<and> List_Nodes cli w2 = (Inr nodes, w3)
            \<and> Status_Update cli
                (policy\<lparr>Status_Conditions :=
                   Update_conditions (Update_numberOfReadyNodes nodes) (Count enactments)
                     (Status_Conditions policy)\<rparr>) w3 = (None, w'))"
    by blast
next
  assume ok: "Reset steps cli policyKey w0 = (None, w')"
  let ?fn = "Reset_fn cli policyKey"
  from RetryOnConflict_char [OF assms, of ?fn w0]
  obtain k where k: "k < steps"
    and res: "RetryOnConflict steps ?fn w0 = ?fn (attempt_world ?fn k w0)"
    and before: "\<forall>j<k. conflicted (?fn (attempt_world ?fn j w0))"
    by blast
  from ok res have "?fn (attempt_world ?fn k w0) = (None, w')"
    by (simp add: Reset_def)
  from Reset_fn_success [OF this] k before
  show "\<exists>k < steps.
          (\<forall>j<k. conflicted (?fn (attempt_world ?fn j w0)))
        \<and> (\<exists>policy w1.
              Get cli policyKey (attempt_world ?fn k w0) = (Inr policy, w1)
            \<and> Status_Update cli (policy\<lparr>Status_Conditions := []\<rparr>) w1 = (None, w'))"
    by blast
qed

text \<open>
  The first attempt finds one of two enactments unfinished and its write conflicts; the
  second finds one failed. What is stored is the failure and not the progress that the
  first attempt had computed.
\<close>

theorem Update_Reset_retry_fresh_witness:
  "0 < (5 :: nat)
   \<and> Update_conditions (Update_numberOfReadyNodes [readyNode, readyNode])
       (fakeCount [EnactmentAvailable, EnactmentProgressing]) [] \<noteq> failedConditions
   \<and> conflicted (Update_fn fakeCount conflictOnceClient (''default'', ''policy'')
        \<lparr>gets = 0, persisted = []\<rparr>)
   \<and> Update 5 fakeCount conflictOnceClient (''default'', ''policy'') \<lparr>gets = 0, persisted = []\<rparr> =
       (None, \<lparr>gets = 2, persisted = failedConditions\<rparr>)
   \<and> (\<exists>k < 5. \<exists>policy w1 enactments w2 nodes w3.
          Get conflictOnceClient (''default'', ''policy'')
            (attempt_world (Update_fn fakeCount conflictOnceClient (''default'', ''policy'')) k
               \<lparr>gets = 0, persisted = []\<rparr>) = (Inr policy, w1)
        \<and> List_Enactments conflictOnceClient (Name policy) w1 = (Inr enactments, w2)
        \<and> List_Nodes conflictOnceClient w2 = (Inr nodes, w3)
        \<and> Status_Update conflictOnceClient
            (policy\<lparr>Status_Conditions :=
               Update_conditions (Update_numberOfReadyNodes nodes) (fakeCount enactments)
                 (Status_Conditions policy)\<rparr>) w3 =
            (None, \<lparr>gets = 2, persisted = failedConditions\<rparr>))"
proof -
  have pos: "0 < (5 :: nat)" by simp
  have d: "Update_conditions (Update_numberOfReadyNodes [readyNode, readyNode])
       (fakeCount [EnactmentAvailable, EnactmentProgressing]) [] \<noteq> failedConditions"
    by (simp add: failedConditions_def fake_eval)
  have c: "conflicted (Update_fn fakeCount conflictOnceClient (''default'', ''policy'')
        \<lparr>gets = 0, persisted = []\<rparr>)"
    by (simp add: conflicted_def conflictOnceClient_def fake_eval)
  have ok: "Update 5 fakeCount conflictOnceClient (''default'', ''policy'')
        \<lparr>gets = 0, persisted = []\<rparr> = (None, \<lparr>gets = 2, persisted = failedConditions\<rparr>)"
    by (simp add: conflictOnceClient_def failedConditions_def fake_eval)
  from Update_Reset_retry_fresh [OF pos, of fakeCount conflictOnceClient
      "(''default'', ''policy'')" "\<lparr>gets = 0, persisted = []\<rparr>"
      "\<lparr>gets = 2, persisted = failedConditions\<rparr>"] ok
  have "\<exists>k < 5. \<exists>policy w1 enactments w2 nodes w3.
          Get conflictOnceClient (''default'', ''policy'')
            (attempt_world (Update_fn fakeCount conflictOnceClient (''default'', ''policy'')) k
               \<lparr>gets = 0, persisted = []\<rparr>) = (Inr policy, w1)
        \<and> List_Enactments conflictOnceClient (Name policy) w1 = (Inr enactments, w2)
        \<and> List_Nodes conflictOnceClient w2 = (Inr nodes, w3)
        \<and> Status_Update conflictOnceClient
            (policy\<lparr>Status_Conditions :=
               Update_conditions (Update_numberOfReadyNodes nodes) (fakeCount enactments)
                 (Status_Conditions policy)\<rparr>) w3 =
            (None, \<lparr>gets = 2, persisted = failedConditions\<rparr>)"
    by blast
  with pos d c ok show ?thesis by blast
qed

text \<open>
  C9. When \<^verbatim>\<open>Reset\<close> returns without error, its last attempt has written, with success,
  the policy it had just read with the condition list replaced by the empty list,
  whatever conditions the policy read had.
\<close>

theorem Reset_persists_empty:
  assumes "0 < steps"
    and "Reset steps cli policyKey w0 = (None, w')"
  shows "\<exists>w policy w1 written.
      Get cli policyKey w = (Inr policy, w1)
    \<and> written = policy\<lparr>Status_Conditions := []\<rparr>
    \<and> Status_Conditions written = []
    \<and> Status_Update cli written w1 = (None, w')"
proof -
  let ?fn = "Reset_fn cli policyKey"
  from RetryOnConflict_char [OF assms(1), of ?fn w0]
  obtain k where "RetryOnConflict steps ?fn w0 = ?fn (attempt_world ?fn k w0)"
    by blast
  with assms(2) have "?fn (attempt_world ?fn k w0) = (None, w')"
    by (simp add: Reset_def)
  from Reset_fn_success [OF this] show ?thesis
    by auto
qed

text \<open>
  A store with two conditions, and one with none, after a \<^verbatim>\<open>Reset\<close> whose first write
  conflicts: both hold the empty list.
\<close>

theorem Reset_persists_empty_witness:
  "0 < (5 :: nat)
   \<and> Reset 5 resetClient (''default'', ''policy'') \<lparr>gets = 0, persisted = failedConditions\<rparr> =
       (None, \<lparr>gets = 2, persisted = []\<rparr>)
   \<and> Reset 5 resetClient (''default'', ''policy'') \<lparr>gets = 0, persisted = []\<rparr> =
       (None, \<lparr>gets = 2, persisted = []\<rparr>)
   \<and> (\<exists>w policy w1 written.
        Get resetClient (''default'', ''policy'') w = (Inr policy, w1)
      \<and> written = policy\<lparr>Status_Conditions := []\<rparr>
      \<and> Status_Conditions written = []
      \<and> Status_Update resetClient written w1 = (None, \<lparr>gets = 2, persisted = []\<rparr>))"
proof -
  have pos: "0 < (5 :: nat)" by simp
  have ok: "Reset 5 resetClient (''default'', ''policy'')
      \<lparr>gets = 0, persisted = failedConditions\<rparr> = (None, \<lparr>gets = 2, persisted = []\<rparr>)"
    by (simp add: resetClient_def fake_eval)
  have ok': "Reset 5 resetClient (''default'', ''policy'')
      \<lparr>gets = 0, persisted = []\<rparr> = (None, \<lparr>gets = 2, persisted = []\<rparr>)"
    by (simp add: resetClient_def fake_eval)
  from pos ok ok' Reset_persists_empty [OF pos ok] show ?thesis
    by blast
qed

subsection \<open>Read failures\<close>

lemma Update_fn_read_failure:
  "Get cli policyKey w = (Inl err, w1) \<Longrightarrow>
     Update_fn Count cli policyKey w = (Some (Wrap err ''getting policy failed''), w1)"
  "Get cli policyKey w = (Inr policy, w1) \<Longrightarrow>
   List_Enactments cli (Name policy) w1 = (Inl err, w2) \<Longrightarrow>
     Update_fn Count cli policyKey w = (Some (Wrap err ''getting enactments failed''), w2)"
  "Get cli policyKey w = (Inr policy, w1) \<Longrightarrow>
   List_Enactments cli (Name policy) w1 = (Inr enactments, w2) \<Longrightarrow>
   List_Nodes cli w2 = (Inl err, w3) \<Longrightarrow>
     Update_fn Count cli policyKey w = (Some (Wrap err ''getting nodes failed''), w3)"
  by (simp_all add: Update_fn_def)

lemma RetryOnConflict_loop_error:
  "fn w = (Some err, w') \<Longrightarrow> \<not> IsConflict err \<Longrightarrow>
     RetryOnConflict_loop (Suc n) fn lastErr w = (Some err, w')"
  by (simp add: RetryOnConflict_loop.simps)

text \<open>
  C7. In every attempt of \<^verbatim>\<open>Update\<close> in which the fetch of the policy, of the
  enactments or of the nodes fails, whatever the error is, the closure returns the
  error wrapped with "getting policy failed", "getting enactments failed" or
  "getting nodes failed" and leaves the world as the failed read left it: no status
  write is made in that attempt. The executor, at whatever attempt it is, returns that
  wrapped error at once and makes no further attempt, and so does \<^verbatim>\<open>Update\<close> when the
  failure is in its first attempt: the world it returns is the one the failed read
  left, with nothing written.
\<close>

theorem Update_read_failure:
  "(Get cli policyKey w = (Inl err, w1) \<longrightarrow>
      Update_fn Count cli policyKey w = (Some (Wrap err ''getting policy failed''), w1)
    \<and> RetryOnConflict_loop (Suc n) (Update_fn Count cli policyKey) lastErr w =
        (Some (Wrap err ''getting policy failed''), w1)
    \<and> Update (Suc n) Count cli policyKey w =
        (Some (Wrap err ''getting policy failed''), w1))
 \<and> (Get cli policyKey w = (Inr policy, w1)
      \<and> List_Enactments cli (Name policy) w1 = (Inl err, w2) \<longrightarrow>
      Update_fn Count cli policyKey w = (Some (Wrap err ''getting enactments failed''), w2)
    \<and> RetryOnConflict_loop (Suc n) (Update_fn Count cli policyKey) lastErr w =
        (Some (Wrap err ''getting enactments failed''), w2)
    \<and> Update (Suc n) Count cli policyKey w =
        (Some (Wrap err ''getting enactments failed''), w2))
 \<and> (Get cli policyKey w = (Inr policy, w1)
      \<and> List_Enactments cli (Name policy) w1 = (Inr enactments, w2)
      \<and> List_Nodes cli w2 = (Inl err, w3) \<longrightarrow>
      Update_fn Count cli policyKey w = (Some (Wrap err ''getting nodes failed''), w3)
    \<and> RetryOnConflict_loop (Suc n) (Update_fn Count cli policyKey) lastErr w =
        (Some (Wrap err ''getting nodes failed''), w3)
    \<and> Update (Suc n) Count cli policyKey w =
        (Some (Wrap err ''getting nodes failed''), w3))"
proof -
  have stop: "RetryOnConflict_loop (Suc n) (Update_fn Count cli policyKey) l w =
                (Some (Wrap err message), w')"
    if "Update_fn Count cli policyKey w = (Some (Wrap err message), w')" for l message w'
    using that by (rule RetryOnConflict_loop_error) simp
  have run: "Update (Suc n) Count cli policyKey w = (Some (Wrap err message), w')"
    if "Update_fn Count cli policyKey w = (Some (Wrap err message), w')" for message w'
    using stop [OF that, of None] by (simp add: Update_def RetryOnConflict_def)
  show ?thesis
    using stop run by (auto simp: Update_fn_read_failure)
qed

text \<open>
  A policy that is not found, and a \<^verbatim>\<open>Get\<close> that fails with a conflict error: in both
  one attempt, the wrapped error, and the store as it was.
\<close>

theorem Update_read_failure_witness:
  "Get getNotFoundClient (''default'', ''policy'') \<lparr>gets = 0, persisted = failedConditions\<rparr> =
     (Inl NotFoundError, \<lparr>gets = 1, persisted = failedConditions\<rparr>)
   \<and> Update 5 fakeCount getNotFoundClient (''default'', ''policy'')
       \<lparr>gets = 0, persisted = failedConditions\<rparr> =
     (Some (Wrap NotFoundError ''getting policy failed''),
      \<lparr>gets = 1, persisted = failedConditions\<rparr>)
   \<and> Get getConflictClient (''default'', ''policy'') \<lparr>gets = 0, persisted = failedConditions\<rparr> =
     (Inl ConflictError, \<lparr>gets = 1, persisted = failedConditions\<rparr>)
   \<and> Update 5 fakeCount getConflictClient (''default'', ''policy'')
       \<lparr>gets = 0, persisted = failedConditions\<rparr> =
     (Some (Wrap ConflictError ''getting policy failed''),
      \<lparr>gets = 1, persisted = failedConditions\<rparr>)"
proof -
  let ?w = "\<lparr>gets = 0, persisted = failedConditions\<rparr>"
  let ?w1 = "\<lparr>gets = 1, persisted = failedConditions\<rparr>"
  have five: "(5 :: nat) = Suc 4"
    by simp
  have g: "Get getNotFoundClient (''default'', ''policy'') ?w = (Inl NotFoundError, ?w1)"
    by (simp add: getNotFoundClient_def fakeClient_def)
  have c: "Get getConflictClient (''default'', ''policy'') ?w = (Inl ConflictError, ?w1)"
    by (simp add: getConflictClient_def fakeClient_def)
  from g Update_read_failure [of getNotFoundClient "(''default'', ''policy'')" ?w
      NotFoundError ?w1 fakeCount 4]
  have r1: "Update 5 fakeCount getNotFoundClient (''default'', ''policy'') ?w =
     (Some (Wrap NotFoundError ''getting policy failed''), ?w1)"
    unfolding five by blast
  from c Update_read_failure [of getConflictClient "(''default'', ''policy'')" ?w
      ConflictError ?w1 fakeCount 4]
  have r2: "Update 5 fakeCount getConflictClient (''default'', ''policy'') ?w =
     (Some (Wrap ConflictError ''getting policy failed''), ?w1)"
    unfolding five by blast
  from g r1 c r2 show ?thesis by blast
qed

end
